theory Spec2Isabelle
  imports Main "HOL-Library.Word"
begin

section \<open>The Job reconciler of scribe (controllers/job\_reconciler.go)\<close>

text \<open>
  A shallow embedding of \<^verbatim>\<open>JobReconciler\<close>: the three mover builders
  (\<^verbatim>\<open>ConfigureRclone\<close>, \<^verbatim>\<open>ConfigureRestic\<close>, \<^verbatim>\<open>ConfigureRsync\<close>), the setters,
  \<^verbatim>\<open>AddEnv\<close>, the mutation function \<^verbatim>\<open>Apply\<close> and \<^verbatim>\<open>Reconcile\<close>.

  Go values are translated as follows. A struct is a record holding the fields the
  source names; a pointer that may be \<^verbatim>\<open>nil\<close> is an \<open>option\<close>; \<^verbatim>\<open>int32\<close> and
  \<^verbatim>\<open>int64\<close> are \<open>32 word\<close> and \<open>64 word\<close>, compared as signed numbers; a
  \<^verbatim>\<open>map[string]string\<close> is an optional partial function, \<open>None\<close> being the
  \<^verbatim>\<open>nil\<close> map; an \<^verbatim>\<open>error\<close> result is an \<open>error option\<close>, \<open>None\<close> being
  \<^verbatim>\<open>nil\<close>. Methods with a pointer receiver take the reconciler and return the updated
  one. A panic (index out of range, \<^verbatim>\<open>nil\<close> dereference) is the result \<open>None\<close> of a
  function returning an \<open>option\<close>. A slice is a list, and lists are values: that two
  slices may share one backing array is not represented. Calls of the logger are left out:
  they change no value that the reconciler or its caller reads.
\<close>

subsection \<open>Kubernetes objects\<close>

type_synonym int32 = "32 word"
type_synonym int64 = "64 word"

text \<open>
  \<^verbatim>\<open>corev1.EnvVar\<close>; \<open>ValueFrom\<close> holds the \<^verbatim>\<open>SecretKeyRef\<close> of the
  \<^verbatim>\<open>EnvVarSource\<close>, the only source this package uses.
\<close>

record SecretKeySelector =
  sks_Name :: string
  Key :: string
  Optional :: "bool option"

record EnvVar =
  ev_Name :: string
  ev_Value :: string
  ValueFrom :: "SecretKeySelector option"

record VolumeMount =
  vm_Name :: string
  MountPath :: string

record Capabilities =
  Add :: "string list"

record SecurityContext =
  sc_Capabilities :: "Capabilities option"
  RunAsUser :: "int64 option"

record Container =
  ctr_Name :: string
  Env :: "EnvVar list"
  Command :: "string list"
  Args :: "string list"
  ctr_Image :: string
  ctr_SecurityContext :: "SecurityContext option"
  VolumeMounts :: "VolumeMount list"

record PersistentVolumeClaimVolumeSource =
  ClaimName :: string

record SecretVolumeSource =
  SecretName :: string
  DefaultMode :: "int32 option"

record VolumeSource =
  vs_PersistentVolumeClaim :: "PersistentVolumeClaimVolumeSource option"
  vs_Secret :: "SecretVolumeSource option"

record Volume =
  vol_Name :: string
  vol_VolumeSource :: VolumeSource

record PodSpec =
  Containers :: "Container list"
  Volumes :: "Volume list"
  ServiceAccountName :: string
  RestartPolicy :: string

record PodTemplateSpec =
  Labels :: "(string \<rightharpoonup> string) option"
  tpl_Spec :: PodSpec

record OwnerReference =
  ref_Kind :: string
  ref_Name :: string
  ref_UID :: string
  Controller :: "bool option"

record JobSpec =
  Parallelism :: "int32 option"
  BackoffLimit :: "int32 option"
  Template :: PodTemplateSpec

record JobStatus =
  Failed :: int32
  Succeeded :: int32

record Job =
  job_Name :: string
  job_Namespace :: string
  OwnerReferences :: "OwnerReference list"
  job_Spec :: JobSpec
  job_Status :: JobStatus

definition RestartPolicyNever :: string where
  "RestartPolicyNever = ''Never''"

datatype error = NotFound | Error string

subsection \<open>Package-level names declared outside job\_reconciler.go\<close>

text \<open>
  The builders read the package-level identifiers \<^verbatim>\<open>mountPath\<close>,
  \<^verbatim>\<open>dataVolumeName\<close>, \<^verbatim>\<open>rcloneSecret\<close>, \<^verbatim>\<open>resticCache\<close>,
  \<^verbatim>\<open>resticCacheMountPath\<close> and the three container images. Their declarations are in
  other files of the package, so their values are a parameter of every builder.
\<close>

record Consts =
  mountPath :: string
  dataVolumeName :: string
  rcloneSecret :: string
  resticCache :: string
  resticCacheMountPath :: string
  RcloneContainerImage :: string
  ResticContainerImage :: string
  RsyncContainerImage :: string

text \<open>
  Modelled from the spec: \<^verbatim>\<open>envFromSecret\<close>, a helper of the package that is declared
  in another file. Section 4.1 (Environment Projection): the binding reads the variable of
  the given name out of the secret of the given name, and carries the flag that says whether
  a missing key is tolerated.
\<close>

definition envFromSecret :: "string \<Rightarrow> string \<Rightarrow> bool \<Rightarrow> EnvVar" where
  "envFromSecret secretName field optional =
     \<lparr>ev_Name = field, ev_Value = '''',
      ValueFrom = Some \<lparr>sks_Name = secretName, Key = field, Optional = Some optional\<rparr>\<rparr>"

subsection \<open>The reconciler\<close>

text \<open>
  \<^verbatim>\<open>owner\<close> and \<^verbatim>\<open>scheme\<close> are only handed on to
  \<^verbatim>\<open>ctrl.SetControllerReference\<close>, so their types are left open. \<^verbatim>\<open>job\<close> is the
  Job the pointer refers to; \<^verbatim>\<open>desired.Labels\<close> and \<^verbatim>\<open>desired.Spec\<close> are the
  fields of the \<^verbatim>\<open>PodTemplateSpec\<close>.
\<close>

record ('o, 's) JobReconciler =
  owner :: 'o
  scheme :: 's
  job :: Job
  desired :: PodTemplateSpec
  paused :: bool

definition NewJobReconciler :: "'o \<Rightarrow> 's \<Rightarrow> Job \<Rightarrow> ('o, 's) JobReconciler" where
  "NewJobReconciler ow sch j =
     \<lparr>owner = ow, scheme = sch, job = j,
      desired = \<lparr>Labels = None,
                 tpl_Spec = \<lparr>Containers = [], Volumes = [], ServiceAccountName = '''',
                             RestartPolicy = ''''\<rparr>\<rparr>,
      paused = False\<rparr>"

definition SetPause :: "('o, 's) JobReconciler \<Rightarrow> bool \<Rightarrow> ('o, 's) JobReconciler" where
  "SetPause jr pause = jr\<lparr>paused := pause\<rparr>"


subsection \<open>The mover builders\<close>

definition ConfigureRclone ::
  "Consts \<Rightarrow> ('o, 's) JobReconciler \<Rightarrow> bool \<Rightarrow> string \<Rightarrow> string \<Rightarrow> string \<Rightarrow> string
     \<Rightarrow> ('o, 's) JobReconciler" where
  "ConfigureRclone K jr isSource dataPVCName destinationPath configSection rcloneSecretName =
     (let runAsUser = (0 :: int64);
          secretMode = (384 :: int32);
          direction = (if isSource then ''source'' else ''destination'')
      in jr\<lparr>desired := (desired jr)\<lparr>tpl_Spec :=
           \<lparr>Containers = [
              \<lparr>ctr_Name = ''rclone'',
               Env = [
                 \<lparr>ev_Name = ''RCLONE_DEST_PATH'', ev_Value = destinationPath, ValueFrom = None\<rparr>,
                 \<lparr>ev_Name = ''DIRECTION'', ev_Value = direction, ValueFrom = None\<rparr>,
                 \<lparr>ev_Name = ''RCLONE_CONFIG'', ev_Value = ''/rclone-config/rclone.conf'',
                  ValueFrom = None\<rparr>,
                 \<lparr>ev_Name = ''RCLONE_CONFIG_SECTION'', ev_Value = configSection, ValueFrom = None\<rparr>,
                 \<lparr>ev_Name = ''MOUNT_PATH'', ev_Value = mountPath K, ValueFrom = None\<rparr>],
               Command = [''/bin/bash'', ''-c'', ''./active.sh''],
               Args = [],
               ctr_Image = RcloneContainerImage K,
               ctr_SecurityContext = Some \<lparr>sc_Capabilities = None, RunAsUser = Some runAsUser\<rparr>,
               VolumeMounts = [
                 \<lparr>vm_Name = dataVolumeName K, MountPath = mountPath K\<rparr>,
                 \<lparr>vm_Name = rcloneSecret K, MountPath = ''/rclone-config''\<rparr>]\<rparr>],
            Volumes = [
              \<lparr>vol_Name = dataVolumeName K, vol_VolumeSource =
                 \<lparr>vs_PersistentVolumeClaim = Some \<lparr>ClaimName = dataPVCName\<rparr>, vs_Secret = None\<rparr>\<rparr>,
              \<lparr>vol_Name = rcloneSecret K, vol_VolumeSource =
                 \<lparr>vs_PersistentVolumeClaim = None,
                  vs_Secret = Some \<lparr>SecretName = rcloneSecretName,
                                    DefaultMode = Some secretMode\<rparr>\<rparr>\<rparr>],
            ServiceAccountName = '''',
            RestartPolicy = ''''\<rparr>\<rparr>\<rparr>)"

text \<open>\<^verbatim>\<open>type ResticAction string\<close> with its three declared constants.\<close>

type_synonym ResticAction = string

definition BackupOnly :: ResticAction where
  "BackupOnly = ''BackupOnly''"

definition BackupAndPrune :: ResticAction where
  "BackupAndPrune = ''BackupAndPrune''"

definition Restore :: ResticAction where
  "Restore = ''Restore''"

text \<open>The action list: two \<^verbatim>\<open>if\<close> statements in sequence over the default.\<close>

definition restic_actions :: "ResticAction \<Rightarrow> string list" where
  "restic_actions action =
     (let actions = [''backup''];
          actions = (if action = BackupAndPrune then [''backup'', ''prune''] else actions);
          actions = (if action = Restore then [''restore''] else actions)
      in actions)"

definition restic_env :: "Consts \<Rightarrow> string \<Rightarrow> string \<Rightarrow> EnvVar list" where
  "restic_env K forgetOptions resticSecretName = [
     \<lparr>ev_Name = ''FORGET_OPTIONS'', ev_Value = forgetOptions, ValueFrom = None\<rparr>,
     \<lparr>ev_Name = ''DATA_DIR'', ev_Value = mountPath K, ValueFrom = None\<rparr>,
     \<lparr>ev_Name = ''RESTIC_CACHE_DIR'', ev_Value = resticCacheMountPath K, ValueFrom = None\<rparr>,
     envFromSecret resticSecretName ''RESTIC_REPOSITORY'' False,
     envFromSecret resticSecretName ''RESTIC_PASSWORD'' False,
     envFromSecret resticSecretName ''AWS_ACCESS_KEY_ID'' True,
     envFromSecret resticSecretName ''AWS_SECRET_ACCESS_KEY'' True,
     envFromSecret resticSecretName ''AWS_DEFAULT_REGION'' True,
     envFromSecret resticSecretName ''ST_AUTH'' True,
     envFromSecret resticSecretName ''ST_USER'' True,
     envFromSecret resticSecretName ''ST_KEY'' True,
     envFromSecret resticSecretName ''OS_AUTH_URL'' True,
     envFromSecret resticSecretName ''OS_REGION_NAME'' True,
     envFromSecret resticSecretName ''OS_USERNAME'' True,
     envFromSecret resticSecretName ''OS_USER_ID'' True,
     envFromSecret resticSecretName ''OS_PASSWORD'' True,
     envFromSecret resticSecretName ''OS_TENANT_ID'' True,
     envFromSecret resticSecretName ''OS_TENANT_NAME'' True,
     envFromSecret resticSecretName ''OS_USER_DOMAIN_NAME'' True,
     envFromSecret resticSecretName ''OS_USER_DOMAIN_ID'' True,
     envFromSecret resticSecretName ''OS_PROJECT_NAME'' True,
     envFromSecret resticSecretName ''OS_PROJECT_DOMAIN_NAME'' True,
     envFromSecret resticSecretName ''OS_PROJECT_DOMAIN_ID'' True,
     envFromSecret resticSecretName ''OS_TRUST_ID'' True,
     envFromSecret resticSecretName ''OS_APPLICATION_CREDENTIAL_ID'' True,
     envFromSecret resticSecretName ''OS_APPLICATION_CREDENTIAL_NAME'' True,
     envFromSecret resticSecretName ''OS_APPLICATION_CREDENTIAL_SECRET'' True,
     envFromSecret resticSecretName ''OS_STORAGE_URL'' True,
     envFromSecret resticSecretName ''OS_AUTH_TOKEN'' True,
     envFromSecret resticSecretName ''B2_ACCOUNT_ID'' True,
     envFromSecret resticSecretName ''B2_ACCOUNT_KEY'' True,
     envFromSecret resticSecretName ''AZURE_ACCOUNT_NAME'' True,
     envFromSecret resticSecretName ''AZURE_ACCOUNT_KEY'' True,
     envFromSecret resticSecretName ''GOOGLE_PROJECT_ID'' True,
     envFromSecret resticSecretName ''GOOGLE_APPLICATION_CREDENTIALS'' True]"

definition ConfigureRestic ::
  "Consts \<Rightarrow> ('o, 's) JobReconciler \<Rightarrow> ResticAction \<Rightarrow> string \<Rightarrow> string \<Rightarrow> string \<Rightarrow> string
     \<Rightarrow> ('o, 's) JobReconciler" where
  "ConfigureRestic K jr action forgetOptions dataPVCName cachePVCName resticSecretName =
     (let runAsUser = (0 :: int64);
          actions = restic_actions action
      in jr\<lparr>desired := (desired jr)\<lparr>tpl_Spec :=
           \<lparr>Containers = [
              \<lparr>ctr_Name = ''restic'',
               Env = restic_env K forgetOptions resticSecretName,
               Command = [''/entry.sh''],
               Args = actions,
               ctr_Image = ResticContainerImage K,
               ctr_SecurityContext = Some \<lparr>sc_Capabilities = None, RunAsUser = Some runAsUser\<rparr>,
               VolumeMounts = [
                 \<lparr>vm_Name = dataVolumeName K, MountPath = mountPath K\<rparr>,
                 \<lparr>vm_Name = resticCache K, MountPath = resticCacheMountPath K\<rparr>]\<rparr>],
            Volumes = [
              \<lparr>vol_Name = dataVolumeName K, vol_VolumeSource =
                 \<lparr>vs_PersistentVolumeClaim = Some \<lparr>ClaimName = dataPVCName\<rparr>, vs_Secret = None\<rparr>\<rparr>,
              \<lparr>vol_Name = resticCache K, vol_VolumeSource =
                 \<lparr>vs_PersistentVolumeClaim = Some \<lparr>ClaimName = cachePVCName\<rparr>, vs_Secret = None\<rparr>\<rparr>],
            ServiceAccountName = '''',
            RestartPolicy = ''''\<rparr>\<rparr>\<rparr>)"

definition rsync_command :: "bool \<Rightarrow> string list" where
  "rsync_command isSource =
     (let command = [''/bin/bash'', ''-c'', ''/destination.sh''];
          command = (if isSource then [''/bin/bash'', ''-c'', ''/source.sh''] else command)
      in command)"

definition ConfigureRsync ::
  "Consts \<Rightarrow> ('o, 's) JobReconciler \<Rightarrow> (string \<rightharpoonup> string) option \<Rightarrow> bool \<Rightarrow> string \<Rightarrow> string
     \<Rightarrow> ('o, 's) JobReconciler" where
  "ConfigureRsync K jr labels isSource dataPVCName sshSecretName =
     (let runAsUser = (0 :: int64);
          secretMode = (384 :: int32);
          command = rsync_command isSource
      in jr\<lparr>desired := (desired jr)\<lparr>Labels := labels, tpl_Spec :=
           \<lparr>Containers = [
              \<lparr>ctr_Name = ''rsync'',
               Env = [],
               Command = command,
               Args = [],
               ctr_Image = RsyncContainerImage K,
               ctr_SecurityContext = Some
                 \<lparr>sc_Capabilities = Some \<lparr>Add = [''AUDIT_WRITE'', ''SYS_CHROOT'']\<rparr>,
                  RunAsUser = Some runAsUser\<rparr>,
               VolumeMounts = [
                 \<lparr>vm_Name = dataVolumeName K, MountPath = mountPath K\<rparr>,
                 \<lparr>vm_Name = ''keys'', MountPath = ''/keys''\<rparr>]\<rparr>],
            Volumes = [
              \<lparr>vol_Name = dataVolumeName K, vol_VolumeSource =
                 \<lparr>vs_PersistentVolumeClaim = Some \<lparr>ClaimName = dataPVCName\<rparr>, vs_Secret = None\<rparr>\<rparr>,
              \<lparr>vol_Name = ''keys'', vol_VolumeSource =
                 \<lparr>vs_PersistentVolumeClaim = None,
                  vs_Secret = Some \<lparr>SecretName = sshSecretName,
                                    DefaultMode = Some secretMode\<rparr>\<rparr>\<rparr>],
            ServiceAccountName = '''',
            RestartPolicy = ''''\<rparr>\<rparr>\<rparr>)"


subsection \<open>Apply\<close>

text \<open>
  \<^verbatim>\<open>ctrl.SetControllerReference\<close> belongs to the controller-runtime library. It either
  fails or stamps the owner into the Job's owner references, so it is a parameter of
  \<open>Apply\<close> that returns the error or the new list of owner references.

  The loop \<^verbatim>\<open>for k, v := range jr.desired.Labels\<close> stores every desired entry into
  the live map: that is \<open>live ++ d\<close>. Ranging over a \<^verbatim>\<open>nil\<close> map runs no
  iteration.
\<close>

type_synonym ('o, 's) SetControllerReference =
  "'o \<Rightarrow> Job \<Rightarrow> 's \<Rightarrow> error + OwnerReference list"

definition Apply ::
  "('o, 's) SetControllerReference \<Rightarrow> ('o, 's) JobReconciler
     \<Rightarrow> error option \<times> ('o, 's) JobReconciler" where
  "Apply SetControllerReference jr =
     (case SetControllerReference (owner jr) (job jr) (scheme jr) of
        Inl err \<Rightarrow> (Some err, jr)
      | Inr refs \<Rightarrow>
          (let j = (job jr)\<lparr>OwnerReferences := refs\<rparr>;
               tpl = Template (job_Spec j);
               live = (case Labels tpl of None \<Rightarrow> Map.empty | Some m \<Rightarrow> m);
               merged = (case Labels (desired jr) of None \<Rightarrow> live | Some d \<Rightarrow> live ++ d);
               backoffLimit = (2 :: int32);
               parallelism = (1 :: int32);
               parallelism = (if paused jr then 0 else parallelism);
               podSpec = (tpl_Spec tpl)
                 \<lparr>RestartPolicy := RestartPolicyNever,
                  Containers := Containers (tpl_Spec (desired jr)),
                  ServiceAccountName := ServiceAccountName (tpl_Spec (desired jr)),
                  Volumes := Volumes (tpl_Spec (desired jr))\<rparr>
           in (None,
               jr\<lparr>job := j\<lparr>job_Spec := (job_Spec j)
                 \<lparr>Template := \<lparr>Labels = Some merged, tpl_Spec = podSpec\<rparr>,
                  BackoffLimit := Some backoffLimit,
                  Parallelism := Some parallelism\<rparr>\<rparr>\<rparr>)))"

subsection \<open>The client and CreateOrUpdate\<close>

text \<open>
  The API client is an external collaborator. Within one \<^verbatim>\<open>Reconcile\<close> each of its
  operations is called at most once, so a client is given by its answers: \<open>Get\<close> returns
  the stored Job or an error (\<open>NotFound\<close> when there is none), \<open>Create\<close> and
  \<open>Update\<close> return the Job as the server stored it, which the client writes back into
  the caller's object, and \<open>Delete\<close> returns its error. The calls issued are recorded
  in order, so that a theorem can say which calls were made.
\<close>

datatype DeletionPropagation =
  DeletePropagationOrphan | DeletePropagationBackground | DeletePropagationForeground

datatype DeleteOption = PropagationPolicy DeletionPropagation

record ObjectKey =
  key_Namespace :: string
  key_Name :: string

record Client =
  Get :: "ObjectKey \<Rightarrow> error + Job"
  Create :: "Job \<Rightarrow> error + Job"
  Update :: "Job \<Rightarrow> error + Job"
  Delete :: "Job \<Rightarrow> DeleteOption list \<Rightarrow> error option"

datatype ClientCall =
  CallGet ObjectKey
| CallCreate Job
| CallUpdate Job
| CallDelete Job "DeleteOption list"

datatype OperationResult =
  OperationResultNone | OperationResultCreated | OperationResultUpdated

definition ObjectKeyFromObject :: "Job \<Rightarrow> ObjectKey" where
  "ObjectKeyFromObject obj = \<lparr>key_Namespace = job_Namespace obj, key_Name = job_Name obj\<rparr>"

definition IsNotFound :: "error \<Rightarrow> bool" where
  "IsNotFound err = (err = NotFound)"

text \<open>
  \<^verbatim>\<open>equality.Semantic.DeepEqual\<close> compares two objects field by field and takes a
  \<^verbatim>\<open>nil\<close> map and an empty map for equal.
\<close>

definition semantic_labels :: "Job \<Rightarrow> Job" where
  "semantic_labels j =
     j\<lparr>job_Spec := (job_Spec j)\<lparr>Template := (Template (job_Spec j))
        \<lparr>Labels := Some (case Labels (Template (job_Spec j)) of
                            None \<Rightarrow> Map.empty | Some m \<Rightarrow> m)\<rparr>\<rparr>\<rparr>"

definition DeepEqual :: "Job \<Rightarrow> Job \<Rightarrow> bool" where
  "DeepEqual a b = (semantic_labels a = semantic_labels b)"

text \<open>
  \<^verbatim>\<open>controllerutil.mutate\<close> runs the mutation function and rejects a change of the
  object's name or namespace.
\<close>

definition mutate ::
  "(('o, 's) JobReconciler \<Rightarrow> error option \<times> ('o, 's) JobReconciler) \<Rightarrow> ObjectKey
     \<Rightarrow> ('o, 's) JobReconciler \<Rightarrow> error option \<times> ('o, 's) JobReconciler" where
  "mutate f key jr =
     (case f jr of
        (Some err, jr') \<Rightarrow> (Some err, jr')
      | (None, jr') \<Rightarrow>
          if key \<noteq> ObjectKeyFromObject (job jr')
          then (Some (Error ''MutateFn cannot mutate object name and/or object namespace''), jr')
          else (None, jr'))"

text \<open>
  \<^verbatim>\<open>controllerutil.CreateOrUpdate\<close> is a function of the controller-runtime library,
  not of this repository. It is written here as the library has it and as section 4.3 of the
  specification describes it (steps 1 to 3), called on the object \<^verbatim>\<open>jr.job\<close> with the
  mutation function \<^verbatim>\<open>jr.Apply\<close>: fetch the object; when it is not found, mutate
  and create; otherwise mutate the fetched object and update it unless the mutation changed
  nothing. The result is the operation, the error, the reconciler with the object as the
  client left it, and the calls issued.
\<close>

definition CreateOrUpdate ::
  "Client \<Rightarrow> ('o, 's) JobReconciler
     \<Rightarrow> (('o, 's) JobReconciler \<Rightarrow> error option \<times> ('o, 's) JobReconciler)
     \<Rightarrow> OperationResult \<times> error option \<times> ('o, 's) JobReconciler \<times> ClientCall list" where
  "CreateOrUpdate c jr f =
     (let key = ObjectKeyFromObject (job jr) in
      case Get c key of
        Inl err \<Rightarrow>
          if \<not> IsNotFound err then (OperationResultNone, Some err, jr, [CallGet key])
          else (case mutate f key jr of
                  (Some err, jr') \<Rightarrow> (OperationResultNone, Some err, jr', [CallGet key])
                | (None, jr') \<Rightarrow>
                    (case Create c (job jr') of
                       Inl err \<Rightarrow>
                         (OperationResultNone, Some err, jr',
                          [CallGet key, CallCreate (job jr')])
                     | Inr stored \<Rightarrow>
                         (OperationResultCreated, None, jr'\<lparr>job := stored\<rparr>,
                          [CallGet key, CallCreate (job jr')])))
      | Inr existing \<Rightarrow>
          (case mutate f key (jr\<lparr>job := existing\<rparr>) of
             (Some err, jr') \<Rightarrow> (OperationResultNone, Some err, jr', [CallGet key])
           | (None, jr') \<Rightarrow>
               if DeepEqual existing (job jr')
               then (OperationResultNone, None, jr', [CallGet key])
               else (case Update c (job jr') of
                       Inl err \<Rightarrow>
                         (OperationResultNone, Some err, jr',
                          [CallGet key, CallUpdate (job jr')])
                     | Inr stored \<Rightarrow>
                         (OperationResultUpdated, None, jr'\<lparr>job := stored\<rparr>,
                          [CallGet key, CallUpdate (job jr')]))))"

subsection \<open>Reconcile\<close>

text \<open>
  The result is \<open>None\<close> when \<^verbatim>\<open>*jr.job.Spec.BackoffLimit\<close> dereferences
  \<^verbatim>\<open>nil\<close>, and otherwise the pair the Go function returns. \<^verbatim>\<open>>=\<close> on
  \<^verbatim>\<open>int32\<close> compares signed values.
\<close>

definition Reconcile ::
  "('o, 's) SetControllerReference \<Rightarrow> Client \<Rightarrow> ('o, 's) JobReconciler
     \<Rightarrow> (bool \<times> error option) option \<times> ('o, 's) JobReconciler \<times> ClientCall list" where
  "Reconcile scr cl jr =
     (case CreateOrUpdate cl jr (Apply scr) of
        (op, Some err, jr', calls) \<Rightarrow> (Some (False, Some err), jr', calls)
      | (op, None, jr', calls) \<Rightarrow>
          (case BackoffLimit (job_Spec (job jr')) of
             None \<Rightarrow> (None, jr', calls)
           | Some limit \<Rightarrow>
               if sint limit \<le> sint (Failed (job_Status (job jr')))
               then (let opts = [PropagationPolicy DeletePropagationBackground];
                         err = Delete cl (job jr') opts
                     in (Some (False, err), jr', calls @ [CallDelete (job jr') opts]))
               else (Some (True, None), jr', calls)))"

subsection \<open>Notions used in the statements\<close>

text \<open>The entries of a Go map: a \<^verbatim>\<open>nil\<close> map has none.\<close>

definition map_entries :: "(string \<rightharpoonup> string) option \<Rightarrow> (string \<rightharpoonup> string)" where
  "map_entries m = (case m of None \<Rightarrow> Map.empty | Some f \<Rightarrow> f)"

text \<open>A Job with its parallelism overwritten: two Jobs that agree after this differ in
  no field but the parallelism.\<close>

definition set_Parallelism :: "Job \<Rightarrow> int32 option \<Rightarrow> Job" where
  "set_Parallelism j p = j\<lparr>job_Spec := (job_Spec j)\<lparr>Parallelism := p\<rparr>\<rparr>"

subsection \<open>Sample values\<close>

text \<open>
  Concrete inputs on which the theorems below are instantiated: values for the package-level
  names, a Job that somebody else has edited (a label, a foreign container, a foreign
  service account), an owner-reference stamp that succeeds, and a client that finds no Job,
  stores what it is given, reports a number of failed attempts and answers the delete with a
  given result.
\<close>

definition example_consts :: Consts where
  "example_consts =
     \<lparr>mountPath = ''/data'', dataVolumeName = ''data'', rcloneSecret = ''rclone-secret'',
      resticCache = ''cache'', resticCacheMountPath = ''/cache'',
      RcloneContainerImage = ''rclone-image'', ResticContainerImage = ''restic-image'',
      RsyncContainerImage = ''rsync-image''\<rparr>"

definition example_job :: Job where
  "example_job =
     \<lparr>job_Name = ''mover'', job_Namespace = ''ns'', OwnerReferences = [],
      job_Spec =
        \<lparr>Parallelism = Some 5, BackoffLimit = None,
         Template =
           \<lparr>Labels = Some [''a'' \<mapsto> ''1''],
            tpl_Spec =
              \<lparr>Containers = [
                 \<lparr>ctr_Name = ''foreign'', Env = [], Command = [''/bin/true''], Args = [],
                  ctr_Image = ''foreign-image'', ctr_SecurityContext = None,
                  VolumeMounts = []\<rparr>],
               Volumes = [], ServiceAccountName = ''foreign-account'',
               RestartPolicy = ''Always''\<rparr>\<rparr>\<rparr>,
      job_Status = \<lparr>Failed = 0, Succeeded = 0\<rparr>\<rparr>"

definition example_scr :: "(unit, unit) SetControllerReference" where
  "example_scr ow j sch =
     Inr [\<lparr>ref_Kind = ''ReplicationSource'', ref_Name = ''source'', ref_UID = ''uid-1'',
           Controller = Some True\<rparr>]"

definition example_client :: "int32 \<Rightarrow> error option \<Rightarrow> Client" where
  "example_client failed deleteResult =
     \<lparr>Get = (\<lambda>key. Inl NotFound),
      Create = (\<lambda>j. Inr (j\<lparr>job_Status := \<lparr>Failed = failed, Succeeded = 0\<rparr>\<rparr>)),
      Update = (\<lambda>j. Inr j),
      Delete = (\<lambda>j opts. deleteResult)\<rparr>"

definition example_reconciler :: "(unit, unit) JobReconciler" where
  "example_reconciler = NewJobReconciler () () example_job"

definition example_rsync :: "(unit, unit) JobReconciler" where
  "example_rsync =
     ConfigureRsync example_consts example_reconciler (Some [''b'' \<mapsto> ''2'']) True ''pvc'' ''keys''"

section \<open>Properties\<close>

lemmas example_defs = example_consts_def example_job_def example_scr_def example_client_def
  example_reconciler_def example_rsync_def NewJobReconciler_def

lemmas builder_defs = ConfigureRsync_def ConfigureRestic_def ConfigureRclone_def
  rsync_command_def restic_actions_def


subsection \<open>What Apply writes\<close>

lemma Apply_job:
  assumes "Apply scr jr = (None, jr')"
  shows "\<exists>refs. scr (owner jr) (job jr) (scheme jr) = Inr refs \<and>
     job jr' = (job jr)
       \<lparr>OwnerReferences := refs,
        job_Spec := (job_Spec (job jr))
          \<lparr>Template :=
             \<lparr>Labels = Some (map_entries (Labels (Template (job_Spec (job jr))))
                               ++ map_entries (Labels (desired jr))),
              tpl_Spec = (tpl_Spec (Template (job_Spec (job jr))))
                \<lparr>RestartPolicy := RestartPolicyNever,
                 Containers := Containers (tpl_Spec (desired jr)),
                 ServiceAccountName := ServiceAccountName (tpl_Spec (desired jr)),
                 Volumes := Volumes (tpl_Spec (desired jr))\<rparr>\<rparr>,
           BackoffLimit := Some 2,
           Parallelism := Some (if paused jr then 0 else 1)\<rparr>\<rparr>
     \<and> desired jr' = desired jr \<and> paused jr' = paused jr"
  using assms
  by (auto simp: Apply_def Let_def map_entries_def split: sum.splits option.splits)

lemma Apply_fields:
  assumes "Apply scr jr = (None, jr')"
  shows "Containers (tpl_Spec (Template (job_Spec (job jr')))) = Containers (tpl_Spec (desired jr))"
    and "Volumes (tpl_Spec (Template (job_Spec (job jr')))) = Volumes (tpl_Spec (desired jr))"
    and "ServiceAccountName (tpl_Spec (Template (job_Spec (job jr'))))
           = ServiceAccountName (tpl_Spec (desired jr))"
    and "BackoffLimit (job_Spec (job jr')) = Some 2"
    and "Parallelism (job_Spec (job jr')) = Some (if paused jr then 0 else 1)"
    and "desired jr' = desired jr"
  using Apply_job [OF assms] by auto

lemma mutate_Apply:
  "mutate (Apply scr) key jr = (None, jr') \<Longrightarrow> Apply scr jr = (None, jr')"
  by (auto simp: mutate_def split: prod.splits option.splits if_splits)

subsection \<open>What CreateOrUpdate and Reconcile hand to the client\<close>



lemma CreateOrUpdate_submits:
  assumes "CreateOrUpdate cl jr (Apply scr) = (op, err, jr', calls)"
    and "CallCreate j \<in> set calls \<or> CallUpdate j \<in> set calls"
  shows "\<exists>jr0 jr1. Apply scr jr0 = (None, jr1) \<and> job jr1 = j
           \<and> desired jr0 = desired jr \<and> paused jr0 = paused jr"
proof (cases "Get cl (ObjectKeyFromObject (job jr))")
  case (Inl e)
  with assms have "\<exists>jr1. Apply scr jr = (None, jr1) \<and> job jr1 = j"
    by (auto simp: CreateOrUpdate_def Let_def
             split: sum.splits prod.splits option.splits if_splits dest!: mutate_Apply)
  then show ?thesis by blast
next
  case (Inr existing)
  with assms have "\<exists>jr1. Apply scr (jr\<lparr>job := existing\<rparr>) = (None, jr1) \<and> job jr1 = j"
    by (auto simp: CreateOrUpdate_def Let_def
             split: sum.splits prod.splits option.splits if_splits dest!: mutate_Apply)
  then obtain jr1 where "Apply scr (jr\<lparr>job := existing\<rparr>) = (None, jr1) \<and> job jr1 = j" ..
  then have "Apply scr (jr\<lparr>job := existing\<rparr>) = (None, jr1) \<and> job jr1 = j
      \<and> desired (jr\<lparr>job := existing\<rparr>) = desired jr \<and> paused (jr\<lparr>job := existing\<rparr>) = paused jr"
    by simp
  then show ?thesis by blast
qed

lemma Reconcile_calls:
  "CallCreate j \<in> set (snd (snd (Reconcile scr cl jr))) \<or>
   CallUpdate j \<in> set (snd (snd (Reconcile scr cl jr))) \<Longrightarrow>
   CallCreate j \<in> set (snd (snd (snd (CreateOrUpdate cl jr (Apply scr))))) \<or>
   CallUpdate j \<in> set (snd (snd (snd (CreateOrUpdate cl jr (Apply scr)))))"
  by (auto simp: Reconcile_def Let_def split: prod.splits option.splits if_splits)

lemma Reconcile_submits:
  assumes "CallCreate j \<in> set (snd (snd (Reconcile scr cl jr))) \<or>
           CallUpdate j \<in> set (snd (snd (Reconcile scr cl jr)))"
  shows "\<exists>jr0 jr1. Apply scr jr0 = (None, jr1) \<and> job jr1 = j
           \<and> desired jr0 = desired jr \<and> paused jr0 = paused jr"
proof -
  obtain op err jr' calls where c: "CreateOrUpdate cl jr (Apply scr) = (op, err, jr', calls)"
    by (metis prod_cases4)
  from Reconcile_calls [OF assms] c
  have "CallCreate j \<in> set calls \<or> CallUpdate j \<in> set calls" by simp
  with c show ?thesis by (rule CreateOrUpdate_submits)
qed

lemma example_Apply:
  "Apply example_scr (jr :: (unit, unit) JobReconciler) = (None, snd (Apply example_scr jr))"
  by (simp add: Apply_def example_scr_def Let_def)

subsection \<open>The retry budget\<close>




subsection \<open>The merge\<close>

text \<open>
  C2: when \<open>Apply\<close> succeeds the live template's labels are a map that holds every
  desired entry, keeps every key the live template had, and agrees with the live template
  on every key the desired labels do not mention. With live labels \<open>{a:1}\<close> and desired
  labels \<open>{b:2}\<close> it is \<open>{a:1, b:2}\<close>.
\<close>

theorem Apply_merges_labels:
  assumes "Apply scr jr = (None, jr')"
  shows "\<exists>merged. Labels (Template (job_Spec (job jr'))) = Some merged
           \<and> (\<forall>k v. map_entries (Labels (desired jr)) k = Some v \<longrightarrow> merged k = Some v)
           \<and> dom (map_entries (Labels (Template (job_Spec (job jr))))) \<subseteq> dom merged
           \<and> (\<forall>k. k \<notin> dom (map_entries (Labels (desired jr))) \<longrightarrow>
                 merged k = map_entries (Labels (Template (job_Spec (job jr)))) k)
           \<and> (Labels (Template (job_Spec (job jr))) = Some [''a'' \<mapsto> ''1'']
                \<longrightarrow> Labels (desired jr) = Some [''b'' \<mapsto> ''2'']
                \<longrightarrow> merged = [''a'' \<mapsto> ''1'', ''b'' \<mapsto> ''2''])"
proof -
  let ?live = "map_entries (Labels (Template (job_Spec (job jr))))"
  let ?des = "map_entries (Labels (desired jr))"
  have lab: "Labels (Template (job_Spec (job jr'))) = Some (?live ++ ?des)"
    using Apply_job [OF assms] by auto
  have adds: "\<forall>k v. ?des k = Some v \<longrightarrow> (?live ++ ?des) k = Some v"
    by (simp add: map_add_Some_iff)
  have keeps: "dom ?live \<subseteq> dom (?live ++ ?des)"
    by auto
  have rest: "\<forall>k. k \<notin> dom ?des \<longrightarrow> (?live ++ ?des) k = ?live k"
    by (simp add: map_add_dom_app_simps)
  have ex: "Labels (Template (job_Spec (job jr))) = Some [''a'' \<mapsto> ''1'']
              \<longrightarrow> Labels (desired jr) = Some [''b'' \<mapsto> ''2'']
              \<longrightarrow> ?live ++ ?des = [''a'' \<mapsto> ''1'', ''b'' \<mapsto> ''2'']"
    by (simp add: map_entries_def)
  from lab adds keeps rest ex show ?thesis
    by blast
qed

text \<open>The theorem at the sample Job, labelled \<open>{a:1}\<close>, and the sample sync template,
  labelled \<open>{b:2}\<close>.\<close>

theorem Apply_merges_labels_witness:
  "fst (Apply example_scr example_rsync) = None
   \<and> Labels (Template (job_Spec (job (snd (Apply example_scr example_rsync)))))
       = Some [''a'' \<mapsto> ''1'', ''b'' \<mapsto> ''2'']"
proof -
  have live: "Labels (Template (job_Spec (job example_rsync))) = Some [''a'' \<mapsto> ''1'']"
    by (simp add: example_defs builder_defs)
  have des: "Labels (desired example_rsync) = Some [''b'' \<mapsto> ''2'']"
    by (simp add: example_defs builder_defs)
  from Apply_merges_labels [OF example_Apply [of example_rsync]] live des
  have "Labels (Template (job_Spec (job (snd (Apply example_scr example_rsync)))))
       = Some [''a'' \<mapsto> ''1'', ''b'' \<mapsto> ''2'']"
    by blast
  moreover have "fst (Apply example_scr example_rsync) = None"
    using example_Apply [of example_rsync] by (metis fst_conv)
  ultimately show ?thesis by blast
qed

text \<open>
  C3: whatever the live Job held, when \<open>Apply\<close> succeeds the Job template's container
  list, volume list and service-account name are those of the desired template. Hence,
  whatever the Job is changed to afterwards, the next successful \<open>Apply\<close> puts the
  same three values back; and every Job that \<open>Reconcile\<close> hands to the client's create
  or update carries them.
\<close>

theorem Apply_replaces_owned_fields:
  assumes "Apply scr jr = (None, jr')"
  shows "Containers (tpl_Spec (Template (job_Spec (job jr')))) = Containers (tpl_Spec (desired jr))
       \<and> Volumes (tpl_Spec (Template (job_Spec (job jr')))) = Volumes (tpl_Spec (desired jr))
       \<and> ServiceAccountName (tpl_Spec (Template (job_Spec (job jr'))))
           = ServiceAccountName (tpl_Spec (desired jr))
       \<and> (\<forall>modified jr''. Apply scr (jr'\<lparr>job := modified\<rparr>) = (None, jr'') \<longrightarrow>
            Containers (tpl_Spec (Template (job_Spec (job jr''))))
              = Containers (tpl_Spec (desired jr))
          \<and> Volumes (tpl_Spec (Template (job_Spec (job jr''))))
              = Volumes (tpl_Spec (desired jr))
          \<and> ServiceAccountName (tpl_Spec (Template (job_Spec (job jr''))))
              = ServiceAccountName (tpl_Spec (desired jr)))
       \<and> (\<forall>j. CallCreate j \<in> set (snd (snd (Reconcile scr cl jr)))
                \<or> CallUpdate j \<in> set (snd (snd (Reconcile scr cl jr))) \<longrightarrow>
            Containers (tpl_Spec (Template (job_Spec j))) = Containers (tpl_Spec (desired jr))
          \<and> Volumes (tpl_Spec (Template (job_Spec j))) = Volumes (tpl_Spec (desired jr))
          \<and> ServiceAccountName (tpl_Spec (Template (job_Spec j)))
              = ServiceAccountName (tpl_Spec (desired jr)))"
proof -
  have again: "Containers (tpl_Spec (Template (job_Spec (job jr''))))
              = Containers (tpl_Spec (desired jr))
          \<and> Volumes (tpl_Spec (Template (job_Spec (job jr''))))
              = Volumes (tpl_Spec (desired jr))
          \<and> ServiceAccountName (tpl_Spec (Template (job_Spec (job jr''))))
              = ServiceAccountName (tpl_Spec (desired jr))"
    if "Apply scr (jr'\<lparr>job := modified\<rparr>) = (None, jr'')" for modified jr''
    using Apply_fields(1-3) [OF that] Apply_fields(6) [OF assms] by simp
  have submitted: "Containers (tpl_Spec (Template (job_Spec j))) = Containers (tpl_Spec (desired jr))
          \<and> Volumes (tpl_Spec (Template (job_Spec j))) = Volumes (tpl_Spec (desired jr))
          \<and> ServiceAccountName (tpl_Spec (Template (job_Spec j)))
              = ServiceAccountName (tpl_Spec (desired jr))"
    if "CallCreate j \<in> set (snd (snd (Reconcile scr cl jr)))
          \<or> CallUpdate j \<in> set (snd (snd (Reconcile scr cl jr)))" for j
  proof -
    from Reconcile_submits [OF that] obtain jr0 jr1 where
      "Apply scr jr0 = (None, jr1)" "job jr1 = j" "desired jr0 = desired jr"
      by blast
    then show ?thesis
      using Apply_fields(1-3) [of scr jr0 jr1] by simp
  qed
  from Apply_fields(1-3) [OF assms] again submitted show ?thesis
    by blast
qed

text \<open>The theorem at the sample Job, whose container and service account are foreign:
  after \<open>Apply\<close> it runs the sync container under the empty service-account name, and
  so does the Job that \<open>Reconcile\<close> creates.\<close>

theorem Apply_replaces_owned_fields_witness:
  "map ctr_Name (Containers (tpl_Spec (Template (job_Spec (job example_rsync))))) = [''foreign'']
   \<and> fst (Apply example_scr example_rsync) = None
   \<and> map ctr_Name (Containers (tpl_Spec (Template (job_Spec
        (job (snd (Apply example_scr example_rsync))))))) = [''rsync'']
   \<and> ServiceAccountName (tpl_Spec (Template (job_Spec
        (job (snd (Apply example_scr example_rsync)))))) = ''''"
proof -
  have before: "map ctr_Name (Containers (tpl_Spec (Template (job_Spec (job example_rsync)))))
      = [''foreign'']"
    by (simp add: example_defs builder_defs)
  have des: "map ctr_Name (Containers (tpl_Spec (desired example_rsync))) = [''rsync'']"
      "ServiceAccountName (tpl_Spec (desired example_rsync)) = ''''"
    by (simp_all add: example_defs builder_defs)
  have ok: "fst (Apply example_scr example_rsync) = None"
    using example_Apply [of example_rsync] by (metis fst_conv)
  from Apply_replaces_owned_fields [OF example_Apply [of example_rsync]] before des ok
  show ?thesis
    by simp
qed


subsection \<open>The builders\<close>

text \<open>
  C4: each of the three builders leaves a desired template with exactly one container, and
  that container mounts the volume named \<open>dataVolumeName\<close> at \<open>mountPath\<close>, the
  same path for the three of them; the volume of that name is the claim on the data PVC.
\<close>

theorem builders_one_container_data_mount:
  "(\<exists>c. Containers (tpl_Spec (desired (ConfigureRsync K jr labels isSource pvc sshSecret))) = [c]
        \<and> \<lparr>vm_Name = dataVolumeName K, MountPath = mountPath K\<rparr> \<in> set (VolumeMounts c))
   \<and> (\<exists>c. Containers (tpl_Spec (desired
              (ConfigureRestic K jr action forget pvc cache resticSecret))) = [c]
        \<and> \<lparr>vm_Name = dataVolumeName K, MountPath = mountPath K\<rparr> \<in> set (VolumeMounts c))
   \<and> (\<exists>c. Containers (tpl_Spec (desired
              (ConfigureRclone K jr isSource pvc path section rcSecret))) = [c]
        \<and> \<lparr>vm_Name = dataVolumeName K, MountPath = mountPath K\<rparr> \<in> set (VolumeMounts c))
   \<and> hd (Volumes (tpl_Spec (desired (ConfigureRsync K jr labels isSource pvc sshSecret))))
       = \<lparr>vol_Name = dataVolumeName K, vol_VolumeSource =
            \<lparr>vs_PersistentVolumeClaim = Some \<lparr>ClaimName = pvc\<rparr>, vs_Secret = None\<rparr>\<rparr>
   \<and> hd (Volumes (tpl_Spec (desired (ConfigureRestic K jr action forget pvc cache resticSecret))))
       = \<lparr>vol_Name = dataVolumeName K, vol_VolumeSource =
            \<lparr>vs_PersistentVolumeClaim = Some \<lparr>ClaimName = pvc\<rparr>, vs_Secret = None\<rparr>\<rparr>
   \<and> hd (Volumes (tpl_Spec (desired (ConfigureRclone K jr isSource pvc path section rcSecret))))
       = \<lparr>vol_Name = dataVolumeName K, vol_VolumeSource =
            \<lparr>vs_PersistentVolumeClaim = Some \<lparr>ClaimName = pvc\<rparr>, vs_Secret = None\<rparr>\<rparr>"
  by (simp add: ConfigureRsync_def ConfigureRestic_def ConfigureRclone_def Let_def)

text \<open>
  C6: the backup builder's container has the arguments \<open>[backup]\<close> for
  \<open>BackupOnly\<close>, \<open>[backup, prune]\<close> for \<open>BackupAndPrune\<close> and \<open>[restore]\<close>
  for \<open>Restore\<close>; the three actions are different values, so each selects one list.
\<close>

theorem ConfigureRestic_args:
  "map Args (Containers (tpl_Spec (desired
      (ConfigureRestic K jr BackupOnly forget pvc cache sec)))) = [[''backup'']]
   \<and> map Args (Containers (tpl_Spec (desired
      (ConfigureRestic K jr BackupAndPrune forget pvc cache sec)))) = [[''backup'', ''prune'']]
   \<and> map Args (Containers (tpl_Spec (desired
      (ConfigureRestic K jr Restore forget pvc cache sec)))) = [[''restore'']]
   \<and> BackupOnly \<noteq> BackupAndPrune \<and> BackupOnly \<noteq> Restore \<and> BackupAndPrune \<noteq> Restore"
  by (simp add: ConfigureRestic_def restic_actions_def BackupOnly_def BackupAndPrune_def
        Restore_def)

text \<open>
  C7: the sync builder's single container runs the source script when \<open>isSource\<close> is
  true and the destination script when it is false.
\<close>

theorem ConfigureRsync_command:
  "map Command (Containers (tpl_Spec (desired (ConfigureRsync K jr labels True pvc sec))))
     = [[''/bin/bash'', ''-c'', ''/source.sh'']]
   \<and> map Command (Containers (tpl_Spec (desired (ConfigureRsync K jr labels False pvc sec))))
     = [[''/bin/bash'', ''-c'', ''/destination.sh'']]"
  by (simp add: ConfigureRsync_def rsync_command_def)

text \<open>
  C8, as the code has it: the sync builder's single container has a security context that
  adds exactly the two capabilities \<open>AUDIT_WRITE\<close> and \<open>SYS_CHROOT\<close> and sets the
  numeric run-as user 0, which is root.
\<close>

theorem ConfigureRsync_security_context:
  "map ctr_SecurityContext (Containers (tpl_Spec (desired
      (ConfigureRsync K jr labels isSource pvc sshSecret))))
     = [Some \<lparr>sc_Capabilities = Some \<lparr>Add = [''AUDIT_WRITE'', ''SYS_CHROOT'']\<rparr>,
              RunAsUser = Some 0\<rparr>]"
  by (simp add: ConfigureRsync_def)

text \<open>
  C8 as it is written asks for a run-as user other than root. On the sample reconciler the
  sync container's run-as user is 0.
\<close>

theorem ConfigureRsync_runs_as_root_counterexample:
  "RunAsUser (the (ctr_SecurityContext (hd (Containers (tpl_Spec (desired
      (ConfigureRsync example_consts example_reconciler None True ''pvc'' ''keys''))))))) = Some 0"
  by (simp add: ConfigureRsync_def)

subsection \<open>The pause flag\<close>

text \<open>
  C5: after \<open>SetPause\<close> with \<open>true\<close> a successful \<open>Apply\<close> leaves parallelism 0,
  after \<open>SetPause\<close> with \<open>false\<close> parallelism 1; a successful \<open>Apply\<close> never
  leaves another value, and every Job that \<open>Reconcile\<close> hands to create or update has
  the parallelism of the flag. The flag decides nothing else: \<open>Apply\<close> fails or
  succeeds alike for both settings, and the two Jobs it leaves are equal once their
  parallelism is overwritten.
\<close>

theorem Apply_parallelism:
  "(\<forall>jr'. Apply scr (SetPause jr pause) = (None, jr') \<longrightarrow>
       Parallelism (job_Spec (job jr')) = Some (if pause then 0 else 1))
   \<and> (\<forall>jr'. Apply scr jr = (None, jr') \<longrightarrow>
       Parallelism (job_Spec (job jr')) = Some 0 \<or> Parallelism (job_Spec (job jr')) = Some 1)
   \<and> (\<forall>j. CallCreate j \<in> set (snd (snd (Reconcile scr cl (SetPause jr pause))))
            \<or> CallUpdate j \<in> set (snd (snd (Reconcile scr cl (SetPause jr pause)))) \<longrightarrow>
          Parallelism (job_Spec j) = Some (if pause then 0 else 1))
   \<and> fst (Apply scr (SetPause jr True)) = fst (Apply scr (SetPause jr False))
   \<and> set_Parallelism (job (snd (Apply scr (SetPause jr True)))) p
       = set_Parallelism (job (snd (Apply scr (SetPause jr False)))) p"
proof -
  have a: "Parallelism (job_Spec (job jr')) = Some (if pause then 0 else 1)"
    if "Apply scr (SetPause jr pause) = (None, jr')" for jr'
    using Apply_fields(5) [OF that] by (simp add: SetPause_def)
  have b: "Parallelism (job_Spec (job jr')) = Some 0 \<or> Parallelism (job_Spec (job jr')) = Some 1"
    if "Apply scr jr = (None, jr')" for jr'
    using Apply_fields(5) [OF that] by simp
  have c: "Parallelism (job_Spec j) = Some (if pause then 0 else 1)"
    if "CallCreate j \<in> set (snd (snd (Reconcile scr cl (SetPause jr pause))))
          \<or> CallUpdate j \<in> set (snd (snd (Reconcile scr cl (SetPause jr pause))))" for j
  proof -
    from Reconcile_submits [OF that] obtain jr0 jr1 where
      "Apply scr jr0 = (None, jr1)" "job jr1 = j" "paused jr0 = paused (SetPause jr pause)"
      by blast
    then show ?thesis
      using Apply_fields(5) [of scr jr0 jr1] by (simp add: SetPause_def)
  qed
  have d: "fst (Apply scr (SetPause jr True)) = fst (Apply scr (SetPause jr False))"
    by (simp add: Apply_def SetPause_def Let_def split: sum.splits)
  have e: "set_Parallelism (job (snd (Apply scr (SetPause jr True)))) p
       = set_Parallelism (job (snd (Apply scr (SetPause jr False)))) p"
    by (simp add: Apply_def SetPause_def set_Parallelism_def Let_def split: sum.splits)
  from a b c d e show ?thesis
    by blast
qed

text \<open>The theorem at the sample reconciler, whose Job came with parallelism 5.\<close>

theorem Apply_parallelism_witness:
  "Parallelism (job_Spec (job example_rsync)) = Some 5
   \<and> fst (Apply example_scr (SetPause example_rsync True)) = None
   \<and> Parallelism (job_Spec (job (snd (Apply example_scr (SetPause example_rsync True))))) = Some 0
   \<and> fst (Apply example_scr (SetPause example_rsync False)) = None
   \<and> Parallelism (job_Spec (job (snd (Apply example_scr (SetPause example_rsync False))))) = Some 1"
proof -
  have before: "Parallelism (job_Spec (job example_rsync)) = Some 5"
    by (simp add: example_defs builder_defs Let_def)
  have ok: "fst (Apply example_scr (SetPause example_rsync b)) = None" for b
    using example_Apply [of "SetPause example_rsync b"] by (metis fst_conv)
  from Apply_parallelism [of example_scr example_rsync True]
    example_Apply [of "SetPause example_rsync True"]
  have t: "Parallelism (job_Spec (job (snd (Apply example_scr (SetPause example_rsync True)))))
      = Some 0"
    by simp
  from Apply_parallelism [of example_scr example_rsync False]
    example_Apply [of "SetPause example_rsync False"]
  have f: "Parallelism (job_Spec (job (snd (Apply example_scr (SetPause example_rsync False)))))
      = Some 1"
    by simp
  from before ok t f show ?thesis by blast
qed

subsection \<open>Setters and builders\<close>





end
